theory Spec2Isabelle
  imports Complex_Main
begin

section \<open>The offer negotiation of \<^verbatim>\<open>backend/order/serializers.py\<close>\<close>

text \<open>
  The serializer \<^verbatim>\<open>OrderSerializer\<close> validates a buyer's offer on a product, creates
  the order, and lets the two participants update it; every create and update also
  sets the product's \<^verbatim>\<open>is_available\<close> flag from the order's status.

  The embedding is shallow. The two database tables are lists of rows, an exception
  is the \<open>Inl\<close> of a sum, and an operation that writes returns the database it leaves
  behind together with its result, so that "nothing was written" is a statement about
  the returned database.

  Amounts and prices are \<^verbatim>\<open>Decimal\<close> values in the source, compared after a cast with
  \<^verbatim>\<open>float(...)\<close>. They are rationals here and the cast is the identity: the cast is
  monotone, and it keeps decimals of at most fifteen significant digits apart, so on
  such amounts the three comparisons of the source are the exact ones.
\<close>

subsection \<open>Data\<close>

record product =
  p_id :: nat
  p_vendor :: nat
  p_price :: rat
  p_is_available :: bool

text \<open>
  The fields of \<^verbatim>\<open>Order\<close> that the serializer reads or writes. The two timestamps are
  left out: the serializer never touches them.
\<close>

record order =
  o_id :: nat
  o_product :: nat
  o_vendor :: nat
  o_buyer :: nat
  o_status :: string
  o_amount :: rat

record db =
  products :: "product list"
  orders :: "order list"

datatype http_method = POST | PUT | PATCH

text \<open>
  What the serializer reads of \<^verbatim>\<open>self.context["request"]\<close>: the method, the vendor
  profile of the user (\<^verbatim>\<open>request.user.vendor\<close>) and the raw product key of the payload
  (\<^verbatim>\<open>request.data.get("product")\<close>).
\<close>

record request =
  r_method :: http_method
  r_user :: nat
  r_product :: "nat option"

text \<open>
  The dictionary \<^verbatim>\<open>data\<close> (\<^verbatim>\<open>validated_data\<close>): a key that is absent is \<open>None\<close>. The
  framework has already turned the product key into the product instance, and the
  buyer key into a vendor profile.
\<close>

record data =
  d_product :: "product option"
  d_buyer :: "nat option"
  d_status :: "string option"
  d_amount :: "rat option"

text \<open>
  \<open>MethodNotAllowed\<close> is the exception the source raises where the specification
  speaks of a conflict.
\<close>

datatype error = MethodNotAllowed | NotFound | KeyError | DoesNotExist | AttributeError

definition available :: "string list" where
  "available = [''OFFERED'', ''DENIED'', ''PENDING'']"

definition sold :: "string list" where
  "sold = [''PROCESSING'', ''ACCEPTED'', ''COMPLETED'']"

subsection \<open>The tables\<close>

text \<open>\<^verbatim>\<open>Product.objects.get(id=k)\<close>: the row with that key, if there is one.\<close>

definition get_product :: "product list \<Rightarrow> nat \<Rightarrow> product option" where
  "get_product rows k = find (\<lambda>r. p_id r = k) rows"

text \<open>\<^verbatim>\<open>x.save()\<close>: the row with the key of \<open>x\<close> becomes \<open>x\<close>; with no such row, \<open>x\<close> is inserted.\<close>

fun save_product :: "product \<Rightarrow> product list \<Rightarrow> product list" where
  "save_product x [] = [x]"
| "save_product x (r # rows) =
     (if p_id r = p_id x then x # rows else r # save_product x rows)"

fun save_order :: "order \<Rightarrow> order list \<Rightarrow> order list" where
  "save_order x [] = [x]"
| "save_order x (r # rows) =
     (if o_id r = o_id x then x # rows else r # save_order x rows)"

text \<open>The order of a route, \<^verbatim>\<open>Order.objects.get(id=k)\<close>: what the framework hands over as \<^verbatim>\<open>instance\<close>.\<close>

definition get_order :: "order list \<Rightarrow> nat \<Rightarrow> order option" where
  "get_order rows k = find (\<lambda>r. o_id r = k) rows"

text \<open>\<^verbatim>\<open>Product.objects.filter(id=k).update(is_available=b)\<close>.\<close>

definition set_available :: "nat \<Rightarrow> bool \<Rightarrow> product list \<Rightarrow> product list" where
  "set_available k b rows =
     map (\<lambda>r. if p_id r = k then r\<lparr>p_is_available := b\<rparr> else r) rows"

text \<open>\<^verbatim>\<open>Order.objects.filter(buyer=b, product=p).exists()\<close>, with \<open>k\<close> the key of \<open>p\<close>.\<close>

definition order_exists :: "order list \<Rightarrow> nat \<Rightarrow> nat \<Rightarrow> bool" where
  "order_exists rows b k = (filter (\<lambda>r. o_buyer r = b \<and> o_product r = k) rows \<noteq> [])"

text \<open>The key the database gives a new order: one that no row has.\<close>

definition new_order_id :: "order list \<Rightarrow> nat" where
  "new_order_id rows = Suc (fold max (map o_id rows) 0)"

subsection \<open>\<^verbatim>\<open>OrderSerializer.validate\<close>\<close>

text \<open>
  The block under \<^verbatim>\<open>method == "POST"\<close>; the exception it raises, if any. The keys are
  read in the order of the source, and a missing one is a \<open>KeyError\<close>.
\<close>

definition validate_post :: "db \<Rightarrow> data \<Rightarrow> error option" where
  "validate_post s d =
     (case d_buyer d of
        None \<Rightarrow> Some KeyError
      | Some b \<Rightarrow>
     (case d_product d of
        None \<Rightarrow> Some KeyError
      | Some p \<Rightarrow>
          if order_exists (orders s) b (p_id p) then Some MethodNotAllowed
          else
            (case d_amount d of
               None \<Rightarrow> Some KeyError
             | Some a \<Rightarrow> if a > p_price p then Some MethodNotAllowed else None)))"

text \<open>The block under \<^verbatim>\<open>method == "PUT"\<close>.\<close>

definition validate_put :: "request \<Rightarrow> order option \<Rightarrow> data \<Rightarrow> error option" where
  "validate_put req instance d =
     (case instance of
        None \<Rightarrow> Some AttributeError
      | Some i \<Rightarrow>
          if r_user req = o_buyer i then
            (case d_amount d of
               None \<Rightarrow> Some KeyError
             | Some a \<Rightarrow>
            (case d_product d of
               None \<Rightarrow> Some KeyError
             | Some p \<Rightarrow> if a > p_price p then Some MethodNotAllowed else None))
          else None)"

definition validate :: "db \<Rightarrow> request \<Rightarrow> order option \<Rightarrow> data \<Rightarrow> error + data" where
  "validate s req instance d =
     (case (if r_method req = POST then validate_post s d else None) of
        Some e \<Rightarrow> Inl e
      | None \<Rightarrow>
     (case (if r_method req = PUT then validate_put req instance d else None) of
        Some e \<Rightarrow> Inl e
      | None \<Rightarrow>
     (case d_product d of
        None \<Rightarrow> Inl KeyError
      | Some p \<Rightarrow> if \<not> p_is_available p then Inl NotFound else Inr d)))"

subsection \<open>\<^verbatim>\<open>OrderSerializer.create\<close>\<close>

text \<open>
  Modelled from the spec: the declaration of the \<^verbatim>\<open>Order\<close> model (\<^verbatim>\<open>order/models.py\<close>)
  is not among the sources. \<^verbatim>\<open>Order.objects.create(buyer, product, amount)\<close> inserts a
  row whose vendor is the seller of the product (the specification's "derived from
  product's seller") and whose status is the model's default, a parameter here.
\<close>

definition objects_create :: "string \<Rightarrow> order list \<Rightarrow> nat \<Rightarrow> product \<Rightarrow> rat \<Rightarrow> order" where
  "objects_create default_status rows buyer product amount =
     \<lparr>o_id = new_order_id rows, o_product = p_id product, o_vendor = p_vendor product,
      o_buyer = buyer, o_status = default_status, o_amount = amount\<rparr>"

definition create :: "string \<Rightarrow> db \<Rightarrow> request \<Rightarrow> data \<Rightarrow> (error + order) \<times> db" where
  "create default_status s req validated_data =
     (let buyer = r_user req in
      case (case r_product req of None \<Rightarrow> None | Some k \<Rightarrow> get_product (products s) k) of
        None \<Rightarrow> (Inl DoesNotExist, s)
      | Some product \<Rightarrow>
          let amount = (case d_amount validated_data of None \<Rightarrow> p_price product | Some a \<Rightarrow> a);
              instance0 = objects_create default_status (orders s) buyer product amount;
              s1 = s\<lparr>orders := orders s @ [instance0]\<rparr>;
              instance1 = (if o_amount instance0 < p_price product
                           then instance0\<lparr>o_status := ''OFFERED''\<rparr> else instance0);
              instance2 = (if o_amount instance1 = p_price product
                           then instance1\<lparr>o_status := ''PROCESSING''\<rparr> else instance1);
              s2 = (if o_status instance2 = ''PROCESSING''
                    then s1\<lparr>products := set_available (p_id product) False (products s1)\<rparr>
                    else s1);
              s3 = (if o_status instance2 = ''OFFERED''
                    then s2\<lparr>products := set_available (p_id product) True (products s2)\<rparr>
                    else s2)
          in (Inr instance2, s3\<lparr>orders := save_order instance2 (orders s3)\<rparr>))"

subsection \<open>\<^verbatim>\<open>OrderSerializer.update\<close>\<close>

text \<open>The branch of the seller: the status of the payload, or the old one.\<close>

definition vendor_branch :: "data \<Rightarrow> order \<Rightarrow> order" where
  "vendor_branch validated_data instance =
     instance\<lparr>o_status :=
       (case d_status validated_data of None \<Rightarrow> o_status instance | Some st \<Rightarrow> st)\<rparr>"

text \<open>The branch of the buyer: the amount of the payload, or the old one; then the status.\<close>

definition buyer_branch :: "product \<Rightarrow> data \<Rightarrow> order \<Rightarrow> order" where
  "buyer_branch product validated_data instance =
     (let instance1 = instance\<lparr>o_amount :=
            (case d_amount validated_data of None \<Rightarrow> o_amount instance | Some a \<Rightarrow> a)\<rparr>;
          instance2 = (if o_amount instance1 < p_price product
                       then instance1\<lparr>o_status := ''OFFERED''\<rparr> else instance1)
      in if o_amount instance2 = p_price product
         then instance2\<lparr>o_status := ''PROCESSING''\<rparr> else instance2)"

text \<open>
  The lines after \<^verbatim>\<open>instance.save()\<close>. Two objects stand for product rows: \<open>product\<close>,
  read by the key of the payload's product, and \<^verbatim>\<open>instance.product\<close>, the row the
  order's foreign key points to, read here (a database that keeps its foreign keys has
  it). The two may be one row or two. Each \<^verbatim>\<open>save()\<close> writes its whole object.
\<close>

definition reconcile :: "db \<Rightarrow> product \<Rightarrow> order \<Rightarrow> (error + order) \<times> db" where
  "reconcile s product instance =
     (case get_product (products s) (o_product instance) of
        None \<Rightarrow> (Inl DoesNotExist, s)
      | Some instance_product \<Rightarrow>
          let in_sold = o_status instance \<in> set sold;
              rows1 = (if in_sold
                       then save_product (product\<lparr>p_is_available := False\<rparr>) (products s)
                       else products s);
              instance_product1 = (if in_sold
                       then instance_product\<lparr>p_is_available := False\<rparr> else instance_product);
              in_available = o_status instance \<in> set available;
              rows2 = (if in_available
                       then save_product (product\<lparr>p_is_available := True\<rparr>) rows1
                       else rows1);
              instance_product2 = (if in_available
                       then instance_product1\<lparr>p_is_available := True\<rparr> else instance_product1)
          in (Inr instance, s\<lparr>products := save_product instance_product2 rows2\<rparr>))"

definition update :: "db \<Rightarrow> request \<Rightarrow> order \<Rightarrow> data \<Rightarrow> (error + order) \<times> db" where
  "update s req instance validated_data =
     (let user = r_user req in
      case d_product validated_data of
        None \<Rightarrow> (Inl KeyError, s)
      | Some product_data \<Rightarrow>
     (case get_product (products s) (p_id product_data) of
        None \<Rightarrow> (Inl DoesNotExist, s)
      | Some product \<Rightarrow>
          let instance1 = (if user = o_vendor instance
                           then vendor_branch validated_data instance else instance);
              instance2 = (if user = o_buyer instance1
                           then buyer_branch product validated_data instance1 else instance1)
          in reconcile (s\<lparr>orders := save_order instance2 (orders s)\<rparr>) product instance2))"

subsection \<open>The two operations\<close>

text \<open>
  The framework calls \<^verbatim>\<open>validate\<close> and, when it returns, \<^verbatim>\<open>create\<close> (no instance) or
  \<^verbatim>\<open>update\<close> (the instance of the route). An exception of \<^verbatim>\<open>validate\<close> ends the
  request with the database as it was.
\<close>

definition CreateOffer :: "string \<Rightarrow> db \<Rightarrow> request \<Rightarrow> data \<Rightarrow> (error + order) \<times> db" where
  "CreateOffer default_status s req d =
     (case validate s req None d of
        Inl e \<Rightarrow> (Inl e, s)
      | Inr validated_data \<Rightarrow> create default_status s req validated_data)"

definition UpdateOffer :: "db \<Rightarrow> request \<Rightarrow> order \<Rightarrow> data \<Rightarrow> (error + order) \<times> db" where
  "UpdateOffer s req instance d =
     (case validate s req (Some instance) d of
        Inl e \<Rightarrow> (Inl e, s)
      | Inr validated_data \<Rightarrow> update s req instance validated_data)"

text \<open>
  The payload's product is the row of the database under the key the request names:
  what the framework's field lookup gives.
\<close>

definition resolved :: "db \<Rightarrow> request \<Rightarrow> data \<Rightarrow> bool" where
  "resolved s req d =
     (case d_product d of
        None \<Rightarrow> False
      | Some p \<Rightarrow> r_product req = Some (p_id p) \<and> get_product (products s) (p_id p) = Some p)"

text \<open>The flag of the order's product is the projection of the order's status.\<close>

definition availability_agrees :: "db \<Rightarrow> order \<Rightarrow> bool" where
  "availability_agrees s ord =
     (case get_product (products s) (o_product ord) of
        None \<Rightarrow> False
      | Some p \<Rightarrow>
          p_is_available p = (o_status ord \<in> set available) \<and>
          p_is_available p = (o_status ord \<notin> set sold))"

text \<open>The flag \<^verbatim>\<open>is_available\<close> of the product with key \<open>k\<close>.\<close>

definition product_flag :: "db \<Rightarrow> nat \<Rightarrow> bool option" where
  "product_flag s k = map_option p_is_available (get_product (products s) k)"

text \<open>The values of the status enumeration: the members of the two tuples.\<close>

definition enum_status :: "string \<Rightarrow> bool" where
  "enum_status st = (st \<in> set available \<union> set sold)"

subsection \<open>A small shop\<close>

text \<open>
  One product at the price 100, sold by vendor 1; buyer 2; an outsider 3. In \<open>ex_db1\<close>
  buyer 2 holds an offer of 80 on the product; in \<open>ex_db2\<close> the buyer has met the
  price and the product is taken; in \<open>ex_db3\<close> the vendor has accepted the offer of 80.
\<close>

definition ex_product :: product where
  "ex_product = \<lparr>p_id = 1, p_vendor = 1, p_price = 100, p_is_available = True\<rparr>"

definition ex_order :: order where
  "ex_order = \<lparr>o_id = 1, o_product = 1, o_vendor = 1, o_buyer = 2,
     o_status = ''OFFERED'', o_amount = 80\<rparr>"

definition ex_db0 :: db where
  "ex_db0 = \<lparr>products = [ex_product], orders = []\<rparr>"

definition ex_db1 :: db where
  "ex_db1 = \<lparr>products = [ex_product], orders = [ex_order]\<rparr>"

definition ex_db2 :: db where
  "ex_db2 = \<lparr>products = [ex_product\<lparr>p_is_available := False\<rparr>],
     orders = [ex_order\<lparr>o_status := ''PROCESSING'', o_amount := 100\<rparr>]\<rparr>"

definition ex_db3 :: db where
  "ex_db3 = \<lparr>products = [ex_product\<lparr>p_is_available := False\<rparr>],
     orders = [ex_order\<lparr>o_status := ''ACCEPTED''\<rparr>]\<rparr>"

definition ex_request :: "http_method \<Rightarrow> nat \<Rightarrow> request" where
  "ex_request m u = \<lparr>r_method = m, r_user = u, r_product = Some 1\<rparr>"

text \<open>A payload of buyer 2 that names the product as the row \<open>p\<close>.\<close>

definition ex_payload :: "product \<Rightarrow> string option \<Rightarrow> rat option \<Rightarrow> data" where
  "ex_payload p st a = \<lparr>d_product = Some p, d_buyer = Some 2, d_status = st, d_amount = a\<rparr>"

section \<open>Facts about the tables\<close>

lemma get_product_key: "get_product rows k = Some p \<Longrightarrow> p_id p = k"
  unfolding get_product_def by (induction rows) (auto split: if_splits)

lemma get_save_product: "get_product (save_product x rows) (p_id x) = Some x"
  unfolding get_product_def by (induction rows) auto

lemma get_save_product_other:
  "k \<noteq> p_id x \<Longrightarrow> get_product (save_product x rows) k = get_product rows k"
  unfolding get_product_def by (induction rows) auto

lemma save_product_same: "get_product rows (p_id x) = Some x \<Longrightarrow> save_product x rows = rows"
  unfolding get_product_def by (induction rows) (auto split: if_splits)

lemma save_product_twice:
  "p_id y = p_id x \<Longrightarrow> save_product y (save_product x rows) = save_product y rows"
  by (induction rows) auto

lemma get_set_available:
  "get_product (set_available k b rows) k =
     map_option (\<lambda>r. r\<lparr>p_is_available := b\<rparr>) (get_product rows k)"
  unfolding get_product_def set_available_def by (induction rows) auto

lemma save_order_twice: "save_order x (save_order x rows) = save_order x rows"
  by (induction rows) auto

lemma save_order_mem: "x \<in> set (save_order x rows)"
  by (induction rows) auto

lemma order_exists_mem:
  "x \<in> set rows \<Longrightarrow> o_buyer x = b \<Longrightarrow> o_product x = k \<Longrightarrow> order_exists rows b k"
  unfolding order_exists_def by (auto simp: filter_empty_conv)

lemma save_order_same: "get_order rows (o_id x) = Some x \<Longrightarrow> save_order x rows = rows"
  unfolding get_order_def by (induction rows) (auto split: if_splits)

lemma sold_not_available: "st \<in> set sold \<Longrightarrow> st \<notin> set available"
  by (auto simp: sold_def available_def)

lemmas ex_defs = ex_product_def ex_order_def ex_db0_def ex_db1_def ex_db2_def ex_db3_def
  ex_request_def ex_payload_def

lemmas run_defs = CreateOffer_def UpdateOffer_def validate_def validate_post_def
  validate_put_def create_def update_def reconcile_def vendor_branch_def buyer_branch_def
  objects_create_def new_order_id_def order_exists_def get_product_def set_available_def
  available_def sold_def Let_def

section \<open>What an operation returns\<close>

lemma CreateOffer_Inr:
  "CreateOffer default_status s req d = (Inr ord, s1) \<Longrightarrow>
     validate s req None d = Inr d \<and> create default_status s req d = (Inr ord, s1)"
  by (auto simp: CreateOffer_def validate_def split: sum.splits option.splits if_splits)

lemma create_Inr:
  assumes "create default_status s req v = (Inr ord, s1)"
  shows "r_product req = Some (o_product ord) \<and> o_buyer ord = r_user req \<and> ord \<in> set (orders s1)"
proof -
  from assms obtain k pr where k: "r_product req = Some k" and pr: "get_product (products s) k = Some pr"
    by (auto simp: create_def split: option.splits)
  have "p_id pr = k" using pr by (rule get_product_key)
  with assms k pr show ?thesis
    by (auto simp: create_def Let_def objects_create_def save_order_mem split: if_splits)
qed

lemma reconcile_result:
  assumes "reconcile s product inst = (res, s')"
  shows "orders s' = orders s \<and> (res = Inr inst \<or> (\<exists>e. res = Inl e \<and> s' = s))"
  using assms by (auto simp: reconcile_def Let_def split: option.splits)

lemma reconcile_flag:
  assumes "reconcile s product inst = (Inr ord, s')"
  shows "(o_status ord \<in> set sold \<longrightarrow> product_flag s' (o_product ord) = Some False) \<and>
         (o_status ord \<in> set available \<longrightarrow> product_flag s' (o_product ord) = Some True)"
proof -
  from assms obtain ip where ip: "get_product (products s) (o_product inst) = Some ip"
    by (auto simp: reconcile_def split: option.splits)
  have k: "p_id ip = o_product inst" using ip by (rule get_product_key)
  from assms ip have ord: "ord = inst"
    by (auto simp: reconcile_def Let_def)
  show ?thesis
  proof (intro conjI impI)
    assume a: "o_status ord \<in> set sold"
    then have na: "o_status inst \<notin> set available" using ord sold_not_available by simp
    from a ord have "o_status inst \<in> set sold" by simp
    with assms ip na
    have "products s' = save_product (ip\<lparr>p_is_available := False\<rparr>)
            (save_product (product\<lparr>p_is_available := False\<rparr>) (products s))"
      by (auto simp: reconcile_def Let_def)
    then have "get_product (products s') (p_id (ip\<lparr>p_is_available := False\<rparr>))
                 = Some (ip\<lparr>p_is_available := False\<rparr>)"
      by (simp only: get_save_product)
    with k ord show "product_flag s' (o_product ord) = Some False"
      by (simp add: product_flag_def)
  next
    assume a: "o_status ord \<in> set available"
    then have "o_status inst \<in> set available" using ord by simp
    with assms ip
    have "\<exists>rows. products s' = save_product (ip\<lparr>p_is_available := True\<rparr>) rows"
      by (auto simp: reconcile_def Let_def)
    then obtain rows where "products s' = save_product (ip\<lparr>p_is_available := True\<rparr>) rows" ..
    then have "get_product (products s') (p_id (ip\<lparr>p_is_available := True\<rparr>))
                 = Some (ip\<lparr>p_is_available := True\<rparr>)"
      by (simp only: get_save_product)
    with k ord show "product_flag s' (o_product ord) = Some True"
      by (simp add: product_flag_def)
  qed
qed

lemma update_result:
  assumes "update s req inst v = (Inr ord, s')"
  shows "\<exists>s0 product. reconcile s0 product ord = (Inr ord, s')"
proof -
  from assms obtain pd product where "d_product v = Some pd"
    and "get_product (products s) (p_id pd) = Some product"
    by (auto simp: update_def Let_def split: option.splits)
  with assms obtain i where r: "reconcile (s\<lparr>orders := save_order i (orders s)\<rparr>) product i = (Inr ord, s')"
    by (auto simp: update_def Let_def)
  then have "ord = i" using reconcile_result by blast
  with r show ?thesis by blast
qed

lemma UpdateOffer_Inr:
  "UpdateOffer s req inst d = (Inr ord, s') \<Longrightarrow>
     validate s req (Some inst) d = Inr d \<and> update s req inst d = (Inr ord, s')"
  by (auto simp: UpdateOffer_def validate_def split: sum.splits option.splits if_splits)

lemma update_flag:
  assumes "UpdateOffer s req inst d = (Inr ord, s')"
  shows "(o_status ord \<in> set sold \<longrightarrow> product_flag s' (o_product ord) = Some False) \<and>
         (o_status ord \<in> set available \<longrightarrow> product_flag s' (o_product ord) = Some True)"
proof -
  from assms have "update s req inst d = (Inr ord, s')" using UpdateOffer_Inr by blast
  then obtain s0 product where "reconcile s0 product ord = (Inr ord, s')"
    using update_result by blast
  then show ?thesis by (rule reconcile_flag)
qed

lemma create_agrees:
  assumes "r_method req = POST" and "resolved s req d"
    and "CreateOffer default_status s req d = (Inr ord, s')"
  shows "availability_agrees s' ord"
proof -
  from assms(2) obtain p where p: "d_product d = Some p" "r_product req = Some (p_id p)"
      "get_product (products s) (p_id p) = Some p"
    by (auto simp: resolved_def split: option.splits)
  from assms(3) have v: "validate s req None d = Inr d"
    and c: "create default_status s req d = (Inr ord, s')"
    using CreateOffer_Inr by blast+
  from v assms(1) p obtain a where a: "d_amount d = Some a" "a \<le> p_price p"
    by (auto simp: validate_def validate_post_def split: option.splits if_splits)
  show ?thesis
  proof (cases "a = p_price p")
    case True
    with c p a have "o_status ord = ''PROCESSING''" "o_product ord = p_id p"
      "products s' = set_available (p_id p) False (products s)"
      by (auto simp: create_def Let_def objects_create_def)
    with p(3) show ?thesis
      by (simp add: availability_agrees_def get_set_available available_def sold_def)
  next
    case False
    with a have "a < p_price p" by simp
    with c p a have "o_status ord = ''OFFERED''" "o_product ord = p_id p"
      "products s' = set_available (p_id p) True (products s)"
      by (auto simp: create_def Let_def objects_create_def)
    with p(3) show ?thesis
      by (simp add: availability_agrees_def get_set_available available_def sold_def)
  qed
qed

lemma flag_agrees:
  assumes "o_status ord \<in> set available \<union> set sold"
    and "o_status ord \<in> set sold \<longrightarrow> product_flag s (o_product ord) = Some False"
    and "o_status ord \<in> set available \<longrightarrow> product_flag s (o_product ord) = Some True"
  shows "availability_agrees s ord"
  using assms sold_not_available [of "o_status ord"]
  by (auto simp: availability_agrees_def product_flag_def split: option.splits)

lemma reconcile_same_product:
  assumes p: "get_product (products s) (p_id p) = Some p" and k: "o_product inst = p_id p"
  shows "reconcile s p inst =
     (Inr inst,
      s\<lparr>products :=
          (if o_status inst \<in> set sold
           then save_product (p\<lparr>p_is_available := False\<rparr>) (products s)
           else if o_status inst \<in> set available
           then save_product (p\<lparr>p_is_available := True\<rparr>) (products s)
           else products s)\<rparr>)"
proof -
  have twice: "\<And>b. save_product (p\<lparr>p_is_available := b\<rparr>)
      (save_product (p\<lparr>p_is_available := b\<rparr>) (products s))
      = save_product (p\<lparr>p_is_available := b\<rparr>) (products s)"
    by (simp add: save_product_twice)
  have same: "save_product p (products s) = products s"
    using p by (rule save_product_same)
  consider (sold) "o_status inst \<in> set sold"
    | (available) "o_status inst \<notin> set sold" "o_status inst \<in> set available"
    | (neither) "o_status inst \<notin> set sold" "o_status inst \<notin> set available"
    by blast
  then show ?thesis
  proof cases
    case sold
    then have "o_status inst \<notin> set available" by (rule sold_not_available)
    with sold p k twice show ?thesis by (simp add: reconcile_def Let_def)
  next
    case available
    with p k twice show ?thesis by (simp add: reconcile_def Let_def)
  next
    case neither
    with p k same show ?thesis by (simp add: reconcile_def Let_def)
  qed
qed

lemma vendor_update:
  assumes "r_user req = o_vendor inst" and "r_user req \<noteq> o_buyer inst"
    and "d_status d = Some st" and "d_product d = Some p"
    and "get_product (products s) (p_id p) = Some p" and "o_product inst = p_id p"
  shows "update s req inst d =
     (Inr (inst\<lparr>o_status := st\<rparr>),
      s\<lparr>orders := save_order (inst\<lparr>o_status := st\<rparr>) (orders s),
        products :=
          (if st \<in> set sold
           then save_product (p\<lparr>p_is_available := False\<rparr>) (products s)
           else if st \<in> set available
           then save_product (p\<lparr>p_is_available := True\<rparr>) (products s)
           else products s)\<rparr>)"
proof -
  let ?i = "inst\<lparr>o_status := st\<rparr>"
  let ?s = "s\<lparr>orders := save_order ?i (orders s)\<rparr>"
  have "update s req inst d = reconcile ?s p ?i"
    using assms by (simp add: update_def Let_def vendor_branch_def)
  also have "\<dots> = (Inr ?i, ?s\<lparr>products :=
          (if o_status ?i \<in> set sold
           then save_product (p\<lparr>p_is_available := False\<rparr>) (products ?s)
           else if o_status ?i \<in> set available
           then save_product (p\<lparr>p_is_available := True\<rparr>) (products ?s)
           else products ?s)\<rparr>)"
    using assms(5,6) by (intro reconcile_same_product) simp_all
  finally show ?thesis by simp
qed

lemma validate_put_vendor:
  assumes "r_method req = PUT" and "r_user req \<noteq> o_buyer inst" and "d_product d = Some p"
  shows "validate s req (Some inst) d = (if p_is_available p then Inr d else Inl NotFound)"
  using assms by (simp add: validate_def validate_put_def)

lemma buyer_update:
  assumes "r_user req = o_buyer inst" and "d_amount d = Some (p_price p)"
    and "d_product d = Some p"
    and "get_product (products s) (p_id p) = Some p" and "o_product inst = p_id p"
  shows "\<exists>inst' s'. update s req inst d = (Inr inst', s') \<and>
           o_status inst' = ''PROCESSING'' \<and> o_amount inst' = p_price p \<and>
           o_buyer inst' = o_buyer inst \<and> o_product inst' = o_product inst \<and>
           o_id inst' = o_id inst \<and> o_vendor inst' = o_vendor inst \<and>
           products s' = save_product (p\<lparr>p_is_available := False\<rparr>) (products s) \<and>
           orders s' = save_order inst' (orders s)"
proof -
  define i where "i = (if r_user req = o_vendor inst then vendor_branch d inst else inst)"
  define j where "j = buyer_branch p d i"
  have i: "o_buyer i = o_buyer inst" "o_product i = o_product inst" "o_id i = o_id inst"
    "o_vendor i = o_vendor inst"
    by (simp_all add: i_def vendor_branch_def)
  have j: "o_status j = ''PROCESSING''" "o_amount j = p_price p" "o_buyer j = o_buyer inst"
    "o_product j = o_product inst" "o_id j = o_id inst" "o_vendor j = o_vendor inst"
    using assms(2) i by (simp_all add: j_def buyer_branch_def Let_def)
  let ?s = "s\<lparr>orders := save_order j (orders s)\<rparr>"
  have "update s req inst d = reconcile ?s p j"
    using assms(1,3,4) i(1) by (simp add: update_def Let_def i_def j_def)
  also have "\<dots> = (Inr j, ?s\<lparr>products :=
          (if o_status j \<in> set sold
           then save_product (p\<lparr>p_is_available := False\<rparr>) (products ?s)
           else if o_status j \<in> set available
           then save_product (p\<lparr>p_is_available := True\<rparr>) (products ?s)
           else products ?s)\<rparr>)"
    using assms(4,5) j(4) by (intro reconcile_same_product) simp_all
  finally have "update s req inst d =
      (Inr j, ?s\<lparr>products := save_product (p\<lparr>p_is_available := False\<rparr>) (products s)\<rparr>)"
    using j(1) by (simp add: sold_def)
  with j show ?thesis by simp
qed

lemma create_returns:
  assumes "r_product req = Some k" and "get_product (products s) k = Some p"
  shows "\<exists>ord s'. create default_status s req v = (Inr ord, s')"
  using assms by (simp add: create_def Let_def)

lemma branches_keep:
  assumes "enum_status (o_status inst)"
    and "case d_status d of None \<Rightarrow> True | Some st \<Rightarrow> enum_status st"
    and "i = (if u = o_vendor inst then vendor_branch d inst else inst)"
    and "j = (if u = o_buyer i then buyer_branch product d i else i)"
  shows "o_product j = o_product inst \<and> enum_status (o_status j)"
proof -
  have i: "o_product i = o_product inst" "enum_status (o_status i)"
    using assms(1,2) by (auto simp: assms(3) vendor_branch_def split: option.splits)
  have off: "enum_status ''OFFERED''" and pr: "enum_status ''PROCESSING''"
    by (simp_all add: enum_status_def available_def sold_def)
  show ?thesis
    using i off pr by (simp add: assms(4) buyer_branch_def Let_def)
qed

lemma update_returns:
  assumes "d_product d = Some p" and "get_product (products s) (p_id p) = Some product"
    and "get_product (products s) (o_product inst) = Some ip"
    and "enum_status (o_status inst)"
    and "case d_status d of None \<Rightarrow> True | Some st \<Rightarrow> enum_status st"
  shows "\<exists>ord s'. update s req inst d = (Inr ord, s') \<and> enum_status (o_status ord)"
proof -
  define i where "i = (if r_user req = o_vendor inst then vendor_branch d inst else inst)"
  define j where "j = (if r_user req = o_buyer i then buyer_branch product d i else i)"
  have k: "o_product j = o_product inst \<and> enum_status (o_status j)"
    using assms(4,5) i_def j_def by (rule branches_keep)
  let ?s = "s\<lparr>orders := save_order j (orders s)\<rparr>"
  have u: "update s req inst d = reconcile ?s product j"
    using assms(1,2) by (simp add: update_def Let_def i_def j_def)
  have "get_product (products ?s) (o_product j) = Some ip"
    using assms(3) k by simp
  then have "\<exists>s'. reconcile ?s product j = (Inr j, s')"
    by (simp add: reconcile_def Let_def)
  with u k show ?thesis by auto
qed

lemma ex_first_offer:
  "CreateOffer ''PENDING'' ex_db0 (ex_request POST 2) (ex_payload ex_product None (Some 80))
     = (Inr ex_order, ex_db1)"
  by (simp add: ex_defs run_defs)

section \<open>The flag follows the status\<close>

text \<open>
  C1. A \<open>CreateOffer\<close> that passes validation returns an order, and so does an
  \<open>UpdateOffer\<close> that passes validation on rows that exist; in the database either
  leaves, the flag of the order's product is true exactly when the order's status is one
  of \<open>OFFERED\<close>, \<open>DENIED\<close>, \<open>PENDING\<close>, and false exactly when it is one of
  \<open>PROCESSING\<close>, \<open>ACCEPTED\<close>, \<open>COMPLETED\<close>. The same holds of every order either
  operation returns. The status is a value of the enumeration, one of the six: a created
  order always has one of them; for an update it is the hypothesis on the old status and
  on the status of the payload.
\<close>

theorem availability_follows_status:
  "(r_method req = POST \<and> resolved s req d \<and> validate s req None d = Inr d
      \<longrightarrow> (\<exists>ord s'. CreateOffer default_status s req d = (Inr ord, s') \<and>
             availability_agrees s' ord)) \<and>
   (validate s req (Some inst) d = Inr d \<and> d_product d = Some p \<and>
    get_product (products s) (p_id p) = Some p \<and>
    get_product (products s) (o_product inst) = Some ip \<and>
    enum_status (o_status inst) \<and>
    (case d_status d of None \<Rightarrow> True | Some st \<Rightarrow> enum_status st)
      \<longrightarrow> (\<exists>ord s'. UpdateOffer s req inst d = (Inr ord, s') \<and>
             availability_agrees s' ord)) \<and>
   (r_method req = POST \<and> resolved s req d \<and>
      CreateOffer default_status s req d = (Inr ord, s')
      \<longrightarrow> availability_agrees s' ord) \<and>
   (UpdateOffer s req inst d = (Inr ord, s') \<and> o_status ord \<in> set available \<union> set sold
      \<longrightarrow> availability_agrees s' ord)"
proof (intro conjI impI)
  assume h: "r_method req = POST \<and> resolved s req d \<and> validate s req None d = Inr d"
  then obtain q where "r_product req = Some (p_id q)" "get_product (products s) (p_id q) = Some q"
    by (auto simp: resolved_def split: option.splits)
  then obtain ord s' where "create default_status s req d = (Inr ord, s')"
    using create_returns by blast
  with h have c: "CreateOffer default_status s req d = (Inr ord, s')"
    by (simp add: CreateOffer_def)
  with h have "availability_agrees s' ord" using create_agrees by blast
  with c show "\<exists>ord s'. CreateOffer default_status s req d = (Inr ord, s') \<and>
             availability_agrees s' ord" by blast
next
  assume h: "validate s req (Some inst) d = Inr d \<and> d_product d = Some p \<and>
    get_product (products s) (p_id p) = Some p \<and>
    get_product (products s) (o_product inst) = Some ip \<and>
    enum_status (o_status inst) \<and>
    (case d_status d of None \<Rightarrow> True | Some st \<Rightarrow> enum_status st)"
  then obtain ord s' where u: "update s req inst d = (Inr ord, s')"
    and e: "enum_status (o_status ord)"
    using update_returns [of d p s p inst ip req] by blast
  with h have c: "UpdateOffer s req inst d = (Inr ord, s')"
    by (simp add: UpdateOffer_def)
  from e have "o_status ord \<in> set available \<union> set sold" by (simp add: enum_status_def)
  with c have "availability_agrees s' ord" using flag_agrees update_flag by blast
  with c show "\<exists>ord s'. UpdateOffer s req inst d = (Inr ord, s') \<and>
             availability_agrees s' ord" by blast
next
  assume "r_method req = POST \<and> resolved s req d \<and>
      CreateOffer default_status s req d = (Inr ord, s')"
  then show "availability_agrees s' ord" using create_agrees by blast
next
  assume "UpdateOffer s req inst d = (Inr ord, s') \<and> o_status ord \<in> set available \<union> set sold"
  then show "availability_agrees s' ord" using flag_agrees update_flag by blast
qed

theorem availability_follows_status_witness:
  "product_flag ex_db0 1 = Some True \<and>
   CreateOffer ''PENDING'' ex_db0 (ex_request POST 2) (ex_payload ex_product None (Some 100))
     = (Inr (ex_order\<lparr>o_status := ''PROCESSING'', o_amount := 100\<rparr>), ex_db2) \<and>
   product_flag ex_db2 1 = Some False \<and>
   availability_agrees ex_db2 (ex_order\<lparr>o_status := ''PROCESSING'', o_amount := 100\<rparr>) \<and>
   product_flag ex_db1 1 = Some True \<and>
   UpdateOffer ex_db1 (ex_request PUT 1) ex_order (ex_payload ex_product (Some ''ACCEPTED'') None)
     = (Inr (ex_order\<lparr>o_status := ''ACCEPTED''\<rparr>), ex_db3) \<and>
   product_flag ex_db3 1 = Some False \<and>
   availability_agrees ex_db3 (ex_order\<lparr>o_status := ''ACCEPTED''\<rparr>) \<and>
   (\<exists>ord s'. CreateOffer ''PENDING'' ex_db0 (ex_request POST 2)
        (ex_payload ex_product None (Some 100)) = (Inr ord, s') \<and> availability_agrees s' ord) \<and>
   (\<exists>ord s'. UpdateOffer ex_db1 (ex_request PUT 1) ex_order
        (ex_payload ex_product (Some ''ACCEPTED'') None) = (Inr ord, s') \<and>
        availability_agrees s' ord)"
proof -
  let ?c = "ex_payload ex_product None (Some 100)"
  let ?u = "ex_payload ex_product (Some ''ACCEPTED'') None"
  have m: "r_method (ex_request POST 2) = POST"
    by (simp add: ex_request_def)
  have r: "resolved ex_db0 (ex_request POST 2) ?c"
    by (simp add: ex_defs resolved_def get_product_def)
  have vc: "validate ex_db0 (ex_request POST 2) None ?c = Inr ?c"
    by (simp add: ex_defs validate_def validate_post_def order_exists_def)
  have c: "CreateOffer ''PENDING'' ex_db0 (ex_request POST 2) ?c
     = (Inr (ex_order\<lparr>o_status := ''PROCESSING'', o_amount := 100\<rparr>), ex_db2)"
    by (simp add: ex_defs run_defs)
  have vu: "validate ex_db1 (ex_request PUT 1) (Some ex_order) ?u = Inr ?u"
    by (simp add: ex_defs validate_def validate_put_def)
  have hu: "d_product ?u = Some ex_product"
    "get_product (products ex_db1) (p_id ex_product) = Some ex_product"
    "get_product (products ex_db1) (o_product ex_order) = Some ex_product"
    "enum_status (o_status ex_order)"
    "case d_status ?u of None \<Rightarrow> True | Some st \<Rightarrow> enum_status st"
    by (simp_all add: ex_defs get_product_def enum_status_def available_def sold_def)
  have u: "UpdateOffer ex_db1 (ex_request PUT 1) ex_order ?u
     = (Inr (ex_order\<lparr>o_status := ''ACCEPTED''\<rparr>), ex_db3)"
    by (simp add: ex_defs ex_db3_def run_defs)
  have st: "o_status (ex_order\<lparr>o_status := ''ACCEPTED''\<rparr>) \<in> set available \<union> set sold"
    by (simp add: sold_def)
  have f: "product_flag ex_db0 1 = Some True" "product_flag ex_db2 1 = Some False"
    "product_flag ex_db1 1 = Some True" "product_flag ex_db3 1 = Some False"
    by (simp_all add: ex_defs ex_db3_def product_flag_def get_product_def)
  note t = availability_follows_status [where req = "ex_request POST 2" and s = ex_db0
        and d = ?c and default_status = "''PENDING''"
        and ord = "ex_order\<lparr>o_status := ''PROCESSING'', o_amount := 100\<rparr>" and s' = ex_db2]
  note t' = availability_follows_status [where req = "ex_request PUT 1" and s = ex_db1
        and inst = ex_order and d = ?u and p = ex_product and ip = ex_product
        and ord = "ex_order\<lparr>o_status := ''ACCEPTED''\<rparr>" and s' = ex_db3]
  have a1: "\<exists>ord s'. CreateOffer ''PENDING'' ex_db0 (ex_request POST 2) ?c = (Inr ord, s') \<and>
      availability_agrees s' ord"
    using t m r vc by blast
  have a2: "availability_agrees ex_db2 (ex_order\<lparr>o_status := ''PROCESSING'', o_amount := 100\<rparr>)"
    using t m r c by blast
  have a3: "\<exists>ord s'. UpdateOffer ex_db1 (ex_request PUT 1) ex_order ?u = (Inr ord, s') \<and>
      availability_agrees s' ord"
    using t' vu hu by blast
  have a4: "availability_agrees ex_db3 (ex_order\<lparr>o_status := ''ACCEPTED''\<rparr>)"
    using t' u st by blast
  from f c u a1 a2 a3 a4 show ?thesis by simp
qed

section \<open>Validation\<close>

text \<open>
  C2, as the source has it. The flag is tested at the end of \<open>validate\<close> for every
  method and every actor. The buyer who updates their own order on a product that is
  already taken is refused like anyone else:
\<close>

theorem buyer_update_unavailable_counterexample:
  "r_user (ex_request PUT 2) = o_buyer (ex_order\<lparr>o_status := ''PROCESSING'', o_amount := 100\<rparr>) \<and>
   get_product (products ex_db2) 1 = Some (ex_product\<lparr>p_is_available := False\<rparr>) \<and>
   UpdateOffer ex_db2 (ex_request PUT 2) (ex_order\<lparr>o_status := ''PROCESSING'', o_amount := 100\<rparr>)
      (ex_payload (ex_product\<lparr>p_is_available := False\<rparr>) None (Some 90))
     = (Inl NotFound, ex_db2)"
  by (simp add: ex_defs run_defs)

text \<open>
  C2, amended. An \<open>UpdateOffer\<close> sent with \<open>PUT\<close> whose product is unavailable at
  validation always fails, and leaves the database as it was, whoever the actor. The
  error is \<open>NotFound\<close>, unless the actor is the buyer and the check of the amount, which
  comes first, has failed.
\<close>

theorem update_unavailable_rejected:
  assumes "r_method req = PUT" and "d_product d = Some p" and "\<not> p_is_available p"
  shows "\<exists>e. UpdateOffer s req inst d = (Inl e, s) \<and>
           (r_user req \<noteq> o_buyer inst \<or> (\<exists>a. d_amount d = Some a \<and> a \<le> p_price p)
              \<longrightarrow> e = NotFound)"
  using assms
  by (auto simp: UpdateOffer_def validate_def validate_put_def split: option.splits)

theorem update_unavailable_rejected_witness:
  "UpdateOffer ex_db2 (ex_request PUT 1) (ex_order\<lparr>o_status := ''PROCESSING'', o_amount := 100\<rparr>)
      (ex_payload (ex_product\<lparr>p_is_available := False\<rparr>) (Some ''COMPLETED'') None)
     = (Inl NotFound, ex_db2)"
  using update_unavailable_rejected [where req = "ex_request PUT 1"
      and d = "ex_payload (ex_product\<lparr>p_is_available := False\<rparr>) (Some ''COMPLETED'') None"
      and p = "ex_product\<lparr>p_is_available := False\<rparr>" and s = ex_db2
      and inst = "ex_order\<lparr>o_status := ''PROCESSING'', o_amount := 100\<rparr>"]
  by (auto simp: ex_defs)

text \<open>
  C3, at a failing input. Buyer 2 posts an offer without an amount on the available
  product, holding no order on it. \<open>validate\<close> reads the missing key and raises
  \<open>KeyError\<close>: no order is created. \<open>create\<close>, had it been reached, would have taken the
  price as the amount, set the status \<open>PROCESSING\<close> and taken the product off the market.
\<close>

theorem create_without_amount_fails:
  "p_is_available ex_product \<and> \<not> order_exists (orders ex_db0) 2 (p_id ex_product) \<and>
   CreateOffer ''PENDING'' ex_db0 (ex_request POST 2) (ex_payload ex_product None None)
     = (Inl KeyError, ex_db0) \<and>
   create ''PENDING'' ex_db0 (ex_request POST 2) (ex_payload ex_product None None)
     = (Inr (ex_order\<lparr>o_status := ''PROCESSING'', o_amount := 100\<rparr>), ex_db2)"
  by (simp add: ex_defs run_defs)

text \<open>
  C6, at a failing input. Buyer 2 holds an offer on the product and posts another one;
  the payload names vendor 3 as the buyer. \<open>validate\<close> looks for an order of the
  payload's buyer and finds none; \<open>create\<close> makes the order for the user of the request.
  The call returns a second order of buyer 2 on the product, where a buyer may hold one.
\<close>

theorem standing_order_of_actor_not_checked:
  "r_user (ex_request POST 2) = 2 \<and> order_exists (orders ex_db1) 2 1 \<and>
   CreateOffer ''PENDING'' ex_db1 (ex_request POST 2)
       ((ex_payload ex_product None (Some 80))\<lparr>d_buyer := Some 3\<rparr>)
     = (Inr (ex_order\<lparr>o_id := 2\<rparr>), ex_db1\<lparr>orders := [ex_order, ex_order\<lparr>o_id := 2\<rparr>]\<rparr>) \<and>
   o_buyer (ex_order\<lparr>o_id := 2\<rparr>) = 2 \<and> o_product (ex_order\<lparr>o_id := 2\<rparr>) = 1"
  by (simp add: ex_defs run_defs)

text \<open>
  What the search does cover. A \<open>CreateOffer\<close> whose payload names a buyer who has an
  order on the product fails with \<open>MethodNotAllowed\<close>, whatever the amount, and writes
  nothing; so a second \<open>CreateOffer\<close> of a user whose payload names the user fails.
\<close>

lemma duplicate_offer_rejected:
  "(r_method req = POST \<and> d_buyer d = Some b \<and> d_product d = Some p \<and>
      order_exists (orders s) b (p_id p)
      \<longrightarrow> CreateOffer default_status s req d = (Inl MethodNotAllowed, s)) \<and>
   (r_method req = POST \<and> CreateOffer default_status s req d = (Inr ord, s') \<and>
      d_buyer d' = Some (r_user req) \<and> d_product d' = Some p' \<and> r_product req = Some (p_id p')
      \<longrightarrow> CreateOffer default_status s' req d' = (Inl MethodNotAllowed, s'))"
proof (intro conjI impI)
  assume "r_method req = POST \<and> d_buyer d = Some b \<and> d_product d = Some p \<and>
      order_exists (orders s) b (p_id p)"
  then show "CreateOffer default_status s req d = (Inl MethodNotAllowed, s)"
    by (simp add: CreateOffer_def validate_def validate_post_def)
next
  assume h: "r_method req = POST \<and> CreateOffer default_status s req d = (Inr ord, s') \<and>
      d_buyer d' = Some (r_user req) \<and> d_product d' = Some p' \<and> r_product req = Some (p_id p')"
  then have "create default_status s req d = (Inr ord, s')"
    using CreateOffer_Inr by blast
  then have "r_product req = Some (o_product ord) \<and> o_buyer ord = r_user req \<and> ord \<in> set (orders s')"
    by (rule create_Inr)
  with h have "order_exists (orders s') (r_user req) (p_id p')"
    by (auto intro: order_exists_mem)
  with h show "CreateOffer default_status s' req d' = (Inl MethodNotAllowed, s')"
    by (simp add: CreateOffer_def validate_def validate_post_def)
qed

lemma duplicate_offer_rejected_witness:
  "order_exists (orders ex_db1) 2 (p_id ex_product) \<and>
   CreateOffer ''PENDING'' ex_db1 (ex_request POST 2) (ex_payload ex_product None (Some 80))
     = (Inl MethodNotAllowed, ex_db1) \<and>
   CreateOffer ''PENDING'' ex_db0 (ex_request POST 2) (ex_payload ex_product None (Some 80))
     = (Inr ex_order, ex_db1) \<and>
   CreateOffer ''PENDING'' ex_db1 (ex_request POST 2) (ex_payload ex_product None (Some 100))
     = (Inl MethodNotAllowed, ex_db1)"
proof -
  have e: "order_exists (orders ex_db1) 2 (p_id ex_product)"
    by (simp add: ex_defs order_exists_def)
  have a: "CreateOffer ''PENDING'' ex_db1 (ex_request POST 2) (ex_payload ex_product None (Some 80))
     = (Inl MethodNotAllowed, ex_db1)"
    using e duplicate_offer_rejected [where req = "ex_request POST 2"
        and d = "ex_payload ex_product None (Some 80)" and b = 2 and p = ex_product
        and s = ex_db1 and default_status = "''PENDING''"]
    by (simp add: ex_request_def ex_payload_def)
  have b: "CreateOffer ''PENDING'' ex_db1 (ex_request POST 2) (ex_payload ex_product None (Some 100))
     = (Inl MethodNotAllowed, ex_db1)"
    using ex_first_offer duplicate_offer_rejected [where req = "ex_request POST 2"
        and d = "ex_payload ex_product None (Some 80)" and s = ex_db0 and ord = ex_order
        and s' = ex_db1 and d' = "ex_payload ex_product None (Some 100)" and p' = ex_product
        and default_status = "''PENDING''"]
    by (simp add: ex_request_def ex_payload_def ex_product_def)
  from e a b ex_first_offer show ?thesis by simp
qed

text \<open>
  C7. A \<open>CreateOffer\<close> with an amount above the price fails with \<open>MethodNotAllowed\<close>
  (the conflict); the database is returned as it was: no order is created and no
  product is changed.
\<close>

theorem create_over_price_rejected:
  assumes "r_method req = POST" and "d_buyer d = Some b" and "d_product d = Some p"
    and "d_amount d = Some a" and "a > p_price p"
  shows "CreateOffer default_status s req d = (Inl MethodNotAllowed, s)"
  using assms by (simp add: CreateOffer_def validate_def validate_post_def)

theorem create_over_price_rejected_witness:
  "CreateOffer ''PENDING'' ex_db0 (ex_request POST 2) (ex_payload ex_product None (Some 150))
     = (Inl MethodNotAllowed, ex_db0)"
  using create_over_price_rejected [where req = "ex_request POST 2"
      and d = "ex_payload ex_product None (Some 150)"
      and b = 2 and p = ex_product and a = 150 and s = ex_db0 and default_status = "''PENDING''"]
  by (simp add: ex_defs)

text \<open>
  C10, as the source has it. The key \<open>amount\<close> is read after the search for a standing
  order: a \<open>CreateOffer\<close> without an amount, for a buyer who already holds an order on
  the product, ends with \<open>MethodNotAllowed\<close>, not with a \<open>KeyError\<close>:
\<close>

theorem missing_amount_duplicate_counterexample:
  "d_amount (ex_payload ex_product None None) = None \<and>
   r_method (ex_request POST 2) = POST \<and>
   CreateOffer ''PENDING'' ex_db1 (ex_request POST 2) (ex_payload ex_product None None)
     = (Inl MethodNotAllowed, ex_db1)"
  by (simp add: ex_defs run_defs)

text \<open>
  C10, amended. A \<open>CreateOffer\<close> without an amount, for a buyer and a product with no
  standing order, and an \<open>UpdateOffer\<close> without an amount sent with \<open>PUT\<close> by the
  order's buyer, both end with a \<open>KeyError\<close> and write nothing.
\<close>

theorem missing_amount_key_error:
  "(r_method req = POST \<and> d_amount d = None \<and> d_buyer d = Some b \<and> d_product d = Some p \<and>
      \<not> order_exists (orders s) b (p_id p)
      \<longrightarrow> CreateOffer default_status s req d = (Inl KeyError, s)) \<and>
   (r_method req = PUT \<and> d_amount d = None \<and> r_user req = o_buyer inst
      \<longrightarrow> UpdateOffer s req inst d = (Inl KeyError, s))"
  by (simp add: CreateOffer_def UpdateOffer_def validate_def validate_post_def validate_put_def)

theorem missing_amount_key_error_witness:
  "\<not> order_exists (orders ex_db0) 2 (p_id ex_product) \<and>
   CreateOffer ''PENDING'' ex_db0 (ex_request POST 2) (ex_payload ex_product None None)
     = (Inl KeyError, ex_db0) \<and>
   r_user (ex_request PUT 2) = o_buyer ex_order \<and>
   UpdateOffer ex_db1 (ex_request PUT 2) ex_order (ex_payload ex_product None None)
     = (Inl KeyError, ex_db1)"
  using missing_amount_key_error [where req = "ex_request POST 2"
      and d = "ex_payload ex_product None None" and b = 2 and p = ex_product
      and s = ex_db0 and default_status = "''PENDING''"]
    missing_amount_key_error [where req = "ex_request PUT 2"
      and d = "ex_payload ex_product None None" and inst = ex_order and s = ex_db1]
  by (simp add: ex_defs order_exists_def)

section \<open>Updates\<close>

text \<open>
  C9. An \<open>UpdateOffer\<close> by an actor who is neither the buyer nor the vendor of the order
  changes no field of the order: the order it returns is the order it was given, and
  the table of orders is the one before the call.
\<close>

theorem outsider_update_keeps_order:
  assumes "r_user req \<noteq> o_buyer inst" and "r_user req \<noteq> o_vendor inst"
    and "get_order (orders s) (o_id inst) = Some inst"
    and "UpdateOffer s req inst d = (res, s')"
  shows "orders s' = orders s \<and> (res = Inr inst \<or> (\<exists>e. res = Inl e \<and> s' = s))"
proof (cases "validate s req (Some inst) d")
  case (Inl e)
  with assms(4) show ?thesis by (auto simp: UpdateOffer_def)
next
  case (Inr v)
  with assms(4) have u: "update s req inst v = (res, s')" by (simp add: UpdateOffer_def)
  have same: "s\<lparr>orders := save_order inst (orders s)\<rparr> = s"
    using assms(3) by (simp add: save_order_same)
  show ?thesis
  proof (cases "d_product v")
    case None
    with u show ?thesis by (auto simp: update_def)
  next
    case (Some pd)
    show ?thesis
    proof (cases "get_product (products s) (p_id pd)")
      case None
      with u Some show ?thesis by (auto simp: update_def)
    next
      case (Some product)
      with u \<open>d_product v = Some pd\<close> assms(1,2) same
      have "reconcile s product inst = (res, s')"
        by (simp add: update_def Let_def)
      then show ?thesis by (rule reconcile_result)
    qed
  qed
qed

theorem outsider_update_keeps_order_witness:
  "UpdateOffer ex_db1 (ex_request PUT 3) ex_order (ex_payload ex_product (Some ''ACCEPTED'') (Some 100))
     = (Inr ex_order, ex_db1)"
proof -
  have r: "UpdateOffer ex_db1 (ex_request PUT 3) ex_order
             (ex_payload ex_product (Some ''ACCEPTED'') (Some 100)) = (Inr ex_order, ex_db1)"
    by (simp add: ex_defs run_defs)
  have "r_user (ex_request PUT 3) \<noteq> o_buyer ex_order" "r_user (ex_request PUT 3) \<noteq> o_vendor ex_order"
    "get_order (orders ex_db1) (o_id ex_order) = Some ex_order"
    by (simp_all add: ex_defs get_order_def)
  from outsider_update_keeps_order [OF this r] r show ?thesis by simp
qed

text \<open>
  C5. On an order with the status \<open>OFFERED\<close> whose product is available, a \<open>PUT\<close> of
  the order's vendor (who is not its buyer) with the status \<open>ACCEPTED\<close> returns the
  order with that status and leaves the product unavailable. The flag is set after the
  role branches, for every actor: whenever an \<open>UpdateOffer\<close> returns an order with a
  sold status the flag is false, and with an available status it is true.
\<close>

theorem vendor_accept_takes_product:
  assumes "r_method req = PUT" and "r_user req = o_vendor inst" and "r_user req \<noteq> o_buyer inst"
    and "o_status inst = ''OFFERED''" and "d_status d = Some ''ACCEPTED''"
    and "d_product d = Some p" and "p_is_available p"
    and "get_product (products s) (p_id p) = Some p" and "o_product inst = p_id p"
  shows "\<exists>s'. UpdateOffer s req inst d = (Inr (inst\<lparr>o_status := ''ACCEPTED''\<rparr>), s') \<and>
           product_flag s' (o_product inst) = Some False \<and>
           orders s' = save_order (inst\<lparr>o_status := ''ACCEPTED''\<rparr>) (orders s) \<and>
           (\<forall>t req' inst' d' ord t'.
              UpdateOffer t req' inst' d' = (Inr ord, t') \<longrightarrow>
                (o_status ord \<in> set sold \<longrightarrow> product_flag t' (o_product ord) = Some False) \<and>
                (o_status ord \<in> set available \<longrightarrow> product_flag t' (o_product ord) = Some True))"
proof -
  have v: "validate s req (Some inst) d = Inr d"
    using assms(1,3,6,7) by (simp add: validate_put_vendor)
  have acc: "''ACCEPTED'' \<in> set sold" by (simp add: sold_def)
  have u: "update s req inst d =
     (Inr (inst\<lparr>o_status := ''ACCEPTED''\<rparr>),
      s\<lparr>orders := save_order (inst\<lparr>o_status := ''ACCEPTED''\<rparr>) (orders s),
        products := save_product (p\<lparr>p_is_available := False\<rparr>) (products s)\<rparr>)"
    using vendor_update [OF assms(2,3,5,6,8,9)] acc by simp
  have f: "get_product (save_product (p\<lparr>p_is_available := False\<rparr>) (products s))
             (p_id (p\<lparr>p_is_available := False\<rparr>)) = Some (p\<lparr>p_is_available := False\<rparr>)"
    by (rule get_save_product)
  from v u f assms(9) show ?thesis
    using update_flag by (simp add: UpdateOffer_def product_flag_def)
qed

theorem vendor_accept_takes_product_witness:
  "UpdateOffer ex_db1 (ex_request PUT 1) ex_order (ex_payload ex_product (Some ''ACCEPTED'') None)
     = (Inr (ex_order\<lparr>o_status := ''ACCEPTED''\<rparr>),
        \<lparr>products = [ex_product\<lparr>p_is_available := False\<rparr>],
         orders = [ex_order\<lparr>o_status := ''ACCEPTED''\<rparr>]\<rparr>) \<and>
   (\<exists>s'. UpdateOffer ex_db1 (ex_request PUT 1) ex_order
            (ex_payload ex_product (Some ''ACCEPTED'') None)
          = (Inr (ex_order\<lparr>o_status := ''ACCEPTED''\<rparr>), s') \<and>
        product_flag s' (o_product ex_order) = Some False)"
proof -
  have h: "r_method (ex_request PUT 1) = PUT" "r_user (ex_request PUT 1) = o_vendor ex_order"
    "r_user (ex_request PUT 1) \<noteq> o_buyer ex_order" "o_status ex_order = ''OFFERED''"
    "d_status (ex_payload ex_product (Some ''ACCEPTED'') None) = Some ''ACCEPTED''"
    "d_product (ex_payload ex_product (Some ''ACCEPTED'') None) = Some ex_product"
    "p_is_available ex_product"
    "get_product (products ex_db1) (p_id ex_product) = Some ex_product"
    "o_product ex_order = p_id ex_product"
    by (simp_all add: ex_defs get_product_def)
  have e: "UpdateOffer ex_db1 (ex_request PUT 1) ex_order (ex_payload ex_product (Some ''ACCEPTED'') None)
     = (Inr (ex_order\<lparr>o_status := ''ACCEPTED''\<rparr>),
        \<lparr>products = [ex_product\<lparr>p_is_available := False\<rparr>],
         orders = [ex_order\<lparr>o_status := ''ACCEPTED''\<rparr>]\<rparr>)"
    by (simp add: ex_defs run_defs)
  from vendor_accept_takes_product [OF h] e show ?thesis by blast
qed

text \<open>
  C4, as the source has it. The buyer raises the offer of 80 to the price: the status
  becomes \<open>PROCESSING\<close> and the product is taken. The buyer then lowers the amount by
  one: \<open>validate\<close> finds the product unavailable and raises \<open>NotFound\<close>; the status
  stays \<open>PROCESSING\<close> and the product stays unavailable.
\<close>

theorem buyer_lowering_counterexample:
  "UpdateOffer ex_db1 (ex_request PUT 2) ex_order (ex_payload ex_product None (Some 100))
     = (Inr (ex_order\<lparr>o_status := ''PROCESSING'', o_amount := 100\<rparr>), ex_db2) \<and>
   get_product (products ex_db2) 1 = Some (ex_product\<lparr>p_is_available := False\<rparr>) \<and>
   UpdateOffer ex_db2 (ex_request PUT 2) (ex_order\<lparr>o_status := ''PROCESSING'', o_amount := 100\<rparr>)
       (ex_payload (ex_product\<lparr>p_is_available := False\<rparr>) None (Some (p_price ex_product - 1)))
     = (Inl NotFound, ex_db2)"
  by (simp add: ex_defs run_defs)

text \<open>
  C4, amended. On an order whose product is available, a \<open>PUT\<close> of the buyer with the
  price as the amount returns the order with the status \<open>PROCESSING\<close> and leaves the
  product unavailable. A following \<open>PUT\<close> of the buyer with the price less one, whose
  payload names the product as it now is, fails with \<open>NotFound\<close> and writes nothing.
\<close>

theorem buyer_meets_price_then_locked:
  assumes "r_method req = PUT" and "r_user req = o_buyer inst"
    and "d_product d = Some p" and "p_is_available p"
    and "get_product (products s) (p_id p) = Some p" and "o_product inst = p_id p"
    and "d_amount d = Some (p_price p)"
    and "d_amount d' = Some (p_price p - 1)"
    and "d_product d' = Some (p\<lparr>p_is_available := False\<rparr>)"
  shows "\<exists>inst' s'. UpdateOffer s req inst d = (Inr inst', s') \<and>
           o_status inst' = ''PROCESSING'' \<and> o_amount inst' = p_price p \<and>
           product_flag s' (o_product inst) = Some False \<and>
           get_product (products s') (p_id p) = d_product d' \<and>
           UpdateOffer s' req inst' d' = (Inl NotFound, s')"
proof -
  have v: "validate s req (Some inst) d = Inr d"
    using assms(1,2,3,4,7) by (simp add: validate_def validate_put_def)
  from buyer_update [OF assms(2,7,3,5,6)] obtain inst' s' where
    u: "update s req inst d = (Inr inst', s')" and
    st: "o_status inst' = ''PROCESSING''" "o_amount inst' = p_price p" and
    b: "o_buyer inst' = o_buyer inst" and
    ps: "products s' = save_product (p\<lparr>p_is_available := False\<rparr>) (products s)"
    by blast
  have g: "get_product (products s') (p_id p) = Some (p\<lparr>p_is_available := False\<rparr>)"
    using get_save_product [of "p\<lparr>p_is_available := False\<rparr>" "products s"] ps by simp
  have w: "validate s' req (Some inst') d' = Inl NotFound"
    using assms(1,2,8,9) b by (simp add: validate_def validate_put_def)
  from v u st g w assms(6,9) show ?thesis
    by (simp add: UpdateOffer_def product_flag_def)
qed

theorem buyer_meets_price_then_locked_witness:
  "UpdateOffer ex_db1 (ex_request PUT 2) ex_order (ex_payload ex_product None (Some 100))
     = (Inr (ex_order\<lparr>o_status := ''PROCESSING'', o_amount := 100\<rparr>), ex_db2) \<and>
   (\<exists>inst' s'. UpdateOffer ex_db1 (ex_request PUT 2) ex_order
        (ex_payload ex_product None (Some 100)) = (Inr inst', s') \<and>
      o_status inst' = ''PROCESSING'' \<and>
      UpdateOffer s' (ex_request PUT 2) inst'
        (ex_payload (ex_product\<lparr>p_is_available := False\<rparr>) None (Some 99)) = (Inl NotFound, s'))"
proof -
  have h: "r_method (ex_request PUT 2) = PUT" "r_user (ex_request PUT 2) = o_buyer ex_order"
    "d_product (ex_payload ex_product None (Some 100)) = Some ex_product"
    "p_is_available ex_product"
    "get_product (products ex_db1) (p_id ex_product) = Some ex_product"
    "o_product ex_order = p_id ex_product"
    "d_amount (ex_payload ex_product None (Some 100)) = Some (p_price ex_product)"
    "d_amount (ex_payload (ex_product\<lparr>p_is_available := False\<rparr>) None (Some 99))
       = Some (p_price ex_product - 1)"
    "d_product (ex_payload (ex_product\<lparr>p_is_available := False\<rparr>) None (Some 99))
       = Some (ex_product\<lparr>p_is_available := False\<rparr>)"
    by (simp_all add: ex_defs get_product_def)
  have e: "UpdateOffer ex_db1 (ex_request PUT 2) ex_order (ex_payload ex_product None (Some 100))
     = (Inr (ex_order\<lparr>o_status := ''PROCESSING'', o_amount := 100\<rparr>), ex_db2)"
    by (simp add: ex_defs run_defs)
  from buyer_meets_price_then_locked [OF h] e show ?thesis by blast
qed

text \<open>
  C8, as the source has it. The vendor accepts the offer, and sends the same request
  again: the product is now unavailable, and the second call fails with \<open>NotFound\<close>.
\<close>

theorem vendor_accept_twice_counterexample:
  "UpdateOffer ex_db1 (ex_request PUT 1) ex_order (ex_payload ex_product (Some ''ACCEPTED'') None)
     = (Inr (ex_order\<lparr>o_status := ''ACCEPTED''\<rparr>),
        \<lparr>products = [ex_product\<lparr>p_is_available := False\<rparr>],
         orders = [ex_order\<lparr>o_status := ''ACCEPTED''\<rparr>]\<rparr>) \<and>
   UpdateOffer \<lparr>products = [ex_product\<lparr>p_is_available := False\<rparr>],
                orders = [ex_order\<lparr>o_status := ''ACCEPTED''\<rparr>]\<rparr>
       (ex_request PUT 1) (ex_order\<lparr>o_status := ''ACCEPTED''\<rparr>)
       (ex_payload (ex_product\<lparr>p_is_available := False\<rparr>) (Some ''ACCEPTED'') None)
     = (Inl NotFound,
        \<lparr>products = [ex_product\<lparr>p_is_available := False\<rparr>],
         orders = [ex_order\<lparr>o_status := ''ACCEPTED''\<rparr>]\<rparr>)"
  by (simp add: ex_defs run_defs)

text \<open>
  C8, amended. After a \<open>PUT\<close> of the vendor (who is not the buyer) that sets a status,
  the same request sent again, its payload naming the product as it now is, leaves the
  database of the first call as it is. It returns the same order when the status is
  not a sold one, and fails with \<open>NotFound\<close> when it is.
\<close>

theorem vendor_status_update_twice:
  assumes "r_method req = PUT" and "r_user req = o_vendor inst" and "r_user req \<noteq> o_buyer inst"
    and "d_status d = Some st" and "d_product d = Some p"
    and "get_product (products s) (p_id p) = Some p" and "o_product inst = p_id p"
    and "UpdateOffer s req inst d = (Inr inst', s')"
    and "d_status d' = d_status d"
    and "d_product d' = get_product (products s') (p_id p)"
  shows "UpdateOffer s' req inst' d' = (if st \<in> set sold then Inl NotFound else Inr inst', s')"
proof -
  have v: "validate s req (Some inst) d = Inr d" and u: "update s req inst d = (Inr inst', s')"
    using assms(8) UpdateOffer_Inr by blast+
  from v assms(1,3,5) have av: "p_is_available p"
    by (simp add: validate_put_vendor split: if_splits)
  let ?X = "if st \<in> set sold
           then save_product (p\<lparr>p_is_available := False\<rparr>) (products s)
           else if st \<in> set available
           then save_product (p\<lparr>p_is_available := True\<rparr>) (products s)
           else products s"
  have eq: "update s req inst d =
      (Inr (inst\<lparr>o_status := st\<rparr>),
       s\<lparr>orders := save_order (inst\<lparr>o_status := st\<rparr>) (orders s), products := ?X\<rparr>)"
    by (rule vendor_update [OF assms(2,3,4,5,6,7)])
  have i: "inst' = inst\<lparr>o_status := st\<rparr>"
    using u unfolding eq by (simp only: prod.inject sum.inject)
  have s': "s' = s\<lparr>orders := save_order inst' (orders s), products := ?X\<rparr>"
    using u unfolding eq i by (simp only: prod.inject)
  have ps: "products s' = ?X" and os: "orders s' = save_order inst' (orders s)"
    by (simp_all add: s')
  have pT: "p\<lparr>p_is_available := True\<rparr> = p" using av by simp
  define q where "q = (if st \<in> set sold then p\<lparr>p_is_available := False\<rparr> else p)"
  have q: "get_product (products s') (p_id p) = Some q"
  proof (cases "st \<in> set sold")
    case True
    then show ?thesis
      using get_save_product [of "p\<lparr>p_is_available := False\<rparr>" "products s"]
      by (simp add: ps q_def)
  next
    case False
    then show ?thesis
      using get_save_product [of "p\<lparr>p_is_available := True\<rparr>" "products s"] assms(6) pT
      by (simp add: ps q_def)
  qed
  have qk: "p_id q = p_id p" by (simp add: q_def)
  have dq: "d_product d' = Some q" using assms(10) q by simp
  have b: "r_user req \<noteq> o_buyer inst'" "r_user req = o_vendor inst'" "o_product inst' = p_id q"
    using assms(2,3,7) by (simp_all add: i qk)
  have w: "validate s' req (Some inst') d' = (if p_is_available q then Inr d' else Inl NotFound)"
    using assms(1) b(1) dq by (rule validate_put_vendor)
  show ?thesis
  proof (cases "st \<in> set sold")
    case True
    then have "\<not> p_is_available q" by (simp add: q_def)
    with w True show ?thesis by (simp add: UpdateOffer_def)
  next
    case False
    then have qa: "p_is_available q" and qp: "q = p" using av by (simp_all add: q_def)
    have gq: "get_product (products s') (p_id q) = Some q" using q qk by simp
    have same: "inst'\<lparr>o_status := st\<rparr> = inst'" by (simp add: i)
    have oo: "save_order inst' (orders s') = orders s'"
      by (simp add: os save_order_twice)
    have pp: "save_product q (products s') = products s'"
      using gq by (rule save_product_same)
    have qT: "q\<lparr>p_is_available := True\<rparr> = q" using qa by simp
    have "update s' req inst' d' = (Inr inst', s')"
      using vendor_update [OF b(2) b(1) _ dq gq b(3), of st] assms(4,9) False
      by (simp add: same oo pp qT)
    with w qa False show ?thesis by (simp add: UpdateOffer_def)
  qed
qed

theorem vendor_status_update_twice_witness:
  "UpdateOffer ex_db1 (ex_request PUT 1) ex_order (ex_payload ex_product (Some ''DENIED'') None)
     = (Inr (ex_order\<lparr>o_status := ''DENIED''\<rparr>),
        ex_db1\<lparr>orders := [ex_order\<lparr>o_status := ''DENIED''\<rparr>]\<rparr>) \<and>
   UpdateOffer (ex_db1\<lparr>orders := [ex_order\<lparr>o_status := ''DENIED''\<rparr>]\<rparr>) (ex_request PUT 1)
       (ex_order\<lparr>o_status := ''DENIED''\<rparr>) (ex_payload ex_product (Some ''DENIED'') None)
     = (Inr (ex_order\<lparr>o_status := ''DENIED''\<rparr>),
        ex_db1\<lparr>orders := [ex_order\<lparr>o_status := ''DENIED''\<rparr>]\<rparr>)"
proof -
  let ?d = "ex_payload ex_product (Some ''DENIED'') None"
  let ?s = "ex_db1\<lparr>orders := [ex_order\<lparr>o_status := ''DENIED''\<rparr>]\<rparr>"
  have h: "r_method (ex_request PUT 1) = PUT" "r_user (ex_request PUT 1) = o_vendor ex_order"
    "r_user (ex_request PUT 1) \<noteq> o_buyer ex_order"
    "d_status ?d = Some ''DENIED''" "d_product ?d = Some ex_product"
    "get_product (products ex_db1) (p_id ex_product) = Some ex_product"
    "o_product ex_order = p_id ex_product"
    by (simp_all add: ex_defs get_product_def)
  have e: "UpdateOffer ex_db1 (ex_request PUT 1) ex_order ?d
     = (Inr (ex_order\<lparr>o_status := ''DENIED''\<rparr>), ?s)"
    by (simp add: ex_defs run_defs)
  have r: "d_status ?d = d_status ?d" "d_product ?d = get_product (products ?s) (p_id ex_product)"
    by (simp_all add: ex_defs get_product_def)
  have n: "''DENIED'' \<notin> set sold" by (simp add: sold_def)
  from vendor_status_update_twice [OF h e r] n e show ?thesis by simp
qed

end
